theory Spec2Isabelle
  imports Main "HOL-Library.Word"
begin

section \<open>The ctypes binding \<open>absscpi/driver.py\<close>\<close>

text \<open>
  The module is a thin Python binding over a native library that it loads at run time and
  reaches through \<open>self.__dll\<close>. The native library is not part of the sources; it is a
  parameter of the model, a record with one function per foreign entry point the binding
  calls. Everything the binding itself does (marshalling of arguments through ctypes,
  the checks it makes before a call, what it reads back from the out-parameters, the
  conversion of return codes into exceptions) is modelled from the Python source.
\<close>

subsection \<open>ctypes values\<close>

text \<open>
  \<open>c_int\<close> (also the default result type of a foreign function) and \<open>c_uint\<close> are 32-bit
  words, read with \<open>sint\<close> and \<open>unat\<close>. The constructors of the ctypes integer types do no
  overflow checking, so \<open>c_uint(n)\<close> is \<open>n\<close> modulo \<open>2 ^ 32\<close>. A \<open>c_void_p\<close> is either
  NULL (\<open>None\<close>) or an address.
\<close>

type_synonym c_int = "32 word"
type_synonym c_uint = "32 word"
type_synonym c_uint8 = "8 word"
type_synonym c_int16 = "16 word"
type_synonym c_void_p = "nat option"

definition c_uint :: "int \<Rightarrow> c_uint" where
  "c_uint n = word_of_int n"

text \<open>
  Byte strings are lists of 8-bit characters. A Python \<open>str\<close> is represented by its UTF-8
  encoding, so \<open>s.encode()\<close> is the representation itself and \<open>length\<close> counts bytes;
  \<open>b.decode()\<close> succeeds exactly on the well-formed UTF-8 byte sequences and raises
  \<open>UnicodeDecodeError\<close> on the others.
\<close>

type_synonym bytes = string
type_synonym str = string

datatype value_error = DeviceIdOutOfRange int | BytesTooLong nat nat

datatype error =
    ScpiClientError str
  | ValueError value_error
  | AttributeError
  | UnicodeDecodeError

definition byte :: "char \<Rightarrow> nat" where
  "byte c = of_char c"

definition cont :: "char \<Rightarrow> bool" where
  "cont c = (0x80 \<le> byte c \<and> byte c \<le> 0xBF)"

definition second_of_3 :: "char \<Rightarrow> char \<Rightarrow> bool" where
  "second_of_3 b c =
     (if byte b = 0xE0 then 0xA0 \<le> byte c \<and> byte c \<le> 0xBF
      else if byte b = 0xED then 0x80 \<le> byte c \<and> byte c \<le> 0x9F
      else cont c)"

definition second_of_4 :: "char \<Rightarrow> char \<Rightarrow> bool" where
  "second_of_4 b c =
     (if byte b = 0xF0 then 0x90 \<le> byte c \<and> byte c \<le> 0xBF
      else if byte b = 0xF4 then 0x80 \<le> byte c \<and> byte c \<le> 0x8F
      else cont c)"

fun utf8_valid :: "bytes \<Rightarrow> bool" where
  "utf8_valid [] = True"
| "utf8_valid (b # bs) =
    (if byte b < 0x80 then utf8_valid bs
     else if 0xC2 \<le> byte b \<and> byte b \<le> 0xDF then
       (case bs of c1 # r \<Rightarrow> cont c1 \<and> utf8_valid r | _ \<Rightarrow> False)
     else if 0xE0 \<le> byte b \<and> byte b \<le> 0xEF then
       (case bs of c1 # c2 # r \<Rightarrow> second_of_3 b c1 \<and> cont c2 \<and> utf8_valid r
        | _ \<Rightarrow> False)
     else if 0xF0 \<le> byte b \<and> byte b \<le> 0xF4 then
       (case bs of c1 # c2 # c3 # r \<Rightarrow>
            second_of_4 b c1 \<and> cont c2 \<and> cont c3 \<and> utf8_valid r
        | _ \<Rightarrow> False)
     else False)"

definition decode :: "bytes \<Rightarrow> error + str" where
  "decode b = (if utf8_valid b then Inr b else Inl UnicodeDecodeError)"

definition encode :: "str \<Rightarrow> bytes" where
  "encode s = s"

text \<open>
  A \<open>c_char * n\<close> array (a structure field, or \<open>create_string_buffer(n)\<close>) holds exactly
  \<open>n\<close> bytes and starts zeroed. \<open>char_array n b\<close> is the array after \<open>b\<close> has been
  written from its start: bytes beyond the array are not part of it, bytes not written
  stay zero. Reading the array (the field getter, or \<open>.value\<close>) gives the bytes before
  the first zero byte, and all \<open>n\<close> bytes when there is none.
\<close>

definition NUL :: char where
  "NUL = CHR 0x00"

definition char_array :: "nat \<Rightarrow> bytes \<Rightarrow> bytes" where
  "char_array n b = take n (b @ replicate n NUL)"

definition c_string :: "bytes \<Rightarrow> bytes" where
  "c_string buf = takeWhile (\<lambda>c. c \<noteq> NUL) buf"

subsection \<open>The structures\<close>

record AbsDeviceInfo =
  part_number :: bytes
  serial :: bytes
  version :: bytes

record AbsEthernetConfig =
  ip :: bytes
  netmask :: bytes

record AbsEthernetDiscoveryResult =
  ip :: bytes
  serial :: bytes

definition AbsDeviceInfo_get_part_number :: "AbsDeviceInfo \<Rightarrow> error + str" where
  "AbsDeviceInfo_get_part_number self = decode (c_string (part_number self))"

definition AbsDeviceInfo_get_serial :: "AbsDeviceInfo \<Rightarrow> error + str" where
  "AbsDeviceInfo_get_serial self = decode (c_string (AbsDeviceInfo.serial self))"

definition AbsDeviceInfo_get_version :: "AbsDeviceInfo \<Rightarrow> error + str" where
  "AbsDeviceInfo_get_version self = decode (c_string (version self))"

definition AbsEthernetConfig_get_ip_address :: "AbsEthernetConfig \<Rightarrow> error + str" where
  "AbsEthernetConfig_get_ip_address self = decode (c_string (AbsEthernetConfig.ip self))"

definition AbsEthernetConfig_get_netmask :: "AbsEthernetConfig \<Rightarrow> error + str" where
  "AbsEthernetConfig_get_netmask self = decode (c_string (netmask self))"

definition AbsEthernetDiscoveryResult_get_ip_address ::
  "AbsEthernetDiscoveryResult \<Rightarrow> error + str" where
  "AbsEthernetDiscoveryResult_get_ip_address self =
     decode (c_string (AbsEthernetDiscoveryResult.ip self))"

definition AbsEthernetDiscoveryResult_get_serial ::
  "AbsEthernetDiscoveryResult \<Rightarrow> error + str" where
  "AbsEthernetDiscoveryResult_get_serial self =
     decode (c_string (AbsEthernetDiscoveryResult.serial self))"

text \<open>The structures as the binding creates them, and after the library has written them.\<close>

definition device_info :: "bytes \<times> bytes \<times> bytes \<Rightarrow> AbsDeviceInfo" where
  "device_info w =
     (case w of (p, s, v) \<Rightarrow>
        \<lparr>part_number = char_array 128 p, AbsDeviceInfo.serial = char_array 128 s,
         version = char_array 128 v\<rparr>)"

definition ethernet_config :: "bytes \<times> bytes \<Rightarrow> AbsEthernetConfig" where
  "ethernet_config w =
     (case w of (i, m) \<Rightarrow>
        \<lparr>AbsEthernetConfig.ip = char_array 32 i, netmask = char_array 32 m\<rparr>)"

definition discovery_result :: "bytes \<times> bytes \<Rightarrow> AbsEthernetDiscoveryResult" where
  "discovery_result w =
     (case w of (i, s) \<Rightarrow> \<lparr>ip = char_array 32 i, serial = char_array 128 s\<rparr>)"

subsection \<open>The native library and the client object\<close>

text \<open>
  The foreign entry points, as the binding calls them. \<open>'w\<close> is the state on the far side
  of the call boundary (the native session behind the handle, the links, the devices);
  \<open>'f\<close> is the value of a \<open>c_float\<close>. Every entry point returns the C \<open>int\<close> result
  first. An out-parameter passed with \<open>byref\<close> is returned as what the library wrote:
  text as the bytes written from the start of the buffer, an array as the elements
  written from its start. \<open>AbsScpiClient_ErrorMessage\<close> has result type \<open>c_char_p\<close>:
  \<open>None\<close> is a NULL pointer, \<open>Some b\<close> the bytes of the C string it points to.
\<close>

record ('w, 'f) driver =
  AbsScpiClient_ErrorMessage :: "c_int \<Rightarrow> bytes option"
  AbsScpiClient_Init :: "c_void_p \<Rightarrow> 'w \<Rightarrow> c_int \<times> c_void_p \<times> 'w"
  AbsScpiClient_Destroy :: "c_void_p \<Rightarrow> 'w \<Rightarrow> c_int \<times> c_void_p \<times> 'w"
  AbsScpiClient_OpenUdp :: "c_void_p \<Rightarrow> bytes \<Rightarrow> bytes option \<Rightarrow> 'w \<Rightarrow> c_int \<times> 'w"
  AbsScpiClient_OpenSerial :: "c_void_p \<Rightarrow> bytes \<Rightarrow> c_uint \<Rightarrow> 'w \<Rightarrow> c_int \<times> 'w"
  AbsScpiClient_GetDeviceInfo :: "c_void_p \<Rightarrow> 'w \<Rightarrow> c_int \<times> (bytes \<times> bytes \<times> bytes) \<times> 'w"
  AbsScpiClient_GetDeviceId :: "c_void_p \<Rightarrow> 'w \<Rightarrow> c_int \<times> c_uint8 \<times> 'w"
  AbsScpiClient_GetIPAddress :: "c_void_p \<Rightarrow> 'w \<Rightarrow> c_int \<times> (bytes \<times> bytes) \<times> 'w"
  AbsScpiClient_SetIPAddress ::
    "c_void_p \<Rightarrow> AbsEthernetConfig \<Rightarrow> 'w \<Rightarrow> c_int \<times> (bytes \<times> bytes) \<times> 'w"
  AbsScpiClient_GetCalibrationDate :: "c_void_p \<Rightarrow> c_uint \<Rightarrow> 'w \<Rightarrow> c_int \<times> bytes \<times> 'w"
  AbsScpiClient_GetErrorCount :: "c_void_p \<Rightarrow> 'w \<Rightarrow> c_int \<times> c_int \<times> 'w"
  AbsScpiClient_GetNextError ::
    "c_void_p \<Rightarrow> c_uint \<Rightarrow> 'w \<Rightarrow> c_int \<times> c_int16 \<times> bytes \<times> 'w"
  AbsScpiClient_ClearErrors :: "c_void_p \<Rightarrow> 'w \<Rightarrow> c_int \<times> 'w"
  AbsScpiClient_SetCellVoltage :: "c_void_p \<Rightarrow> c_uint \<Rightarrow> 'f \<Rightarrow> 'w \<Rightarrow> c_int \<times> 'w"
  AbsScpiClient_SetAllCellVoltages :: "c_void_p \<Rightarrow> 'f list \<Rightarrow> c_uint \<Rightarrow> 'w \<Rightarrow> c_int \<times> 'w"
  AbsScpiClient_GetCellVoltageTarget :: "c_void_p \<Rightarrow> c_uint \<Rightarrow> 'w \<Rightarrow> c_int \<times> 'f \<times> 'w"
  AbsScpiClient_GetAllCellVoltageTargets ::
    "c_void_p \<Rightarrow> c_uint \<Rightarrow> 'w \<Rightarrow> c_int \<times> 'f list \<times> 'w"
  AbsScpiClient_MulticastDiscovery ::
    "bytes \<Rightarrow> c_uint \<Rightarrow> 'w \<Rightarrow> c_int \<times> (bytes \<times> bytes) list \<times> c_uint \<times> 'w"

text \<open>
  The calls that take the handle or reach a transport, with the arguments as marshalled.
  The client's \<open>trace\<close> lists them in the order they were made.
\<close>

datatype 'f call =
    Call_Init c_void_p
  | Call_Destroy c_void_p
  | Call_OpenUdp c_void_p bytes "bytes option"
  | Call_OpenSerial c_void_p bytes c_uint
  | Call_GetDeviceInfo c_void_p
  | Call_GetDeviceId c_void_p
  | Call_GetIPAddress c_void_p
  | Call_SetIPAddress c_void_p AbsEthernetConfig
  | Call_GetCalibrationDate c_void_p c_uint
  | Call_GetErrorCount c_void_p
  | Call_GetNextError c_void_p c_uint
  | Call_ClearErrors c_void_p
  | Call_SetCellVoltage c_void_p c_uint 'f
  | Call_SetAllCellVoltages c_void_p "'f list" c_uint
  | Call_GetCellVoltageTarget c_void_p c_uint
  | Call_GetAllCellVoltageTargets c_void_p c_uint
  | Call_MulticastDiscovery bytes c_uint

text \<open>
  A \<open>ScpiClient\<close> object holds the handle (\<open>self.__handle\<close>, NULL when created). The
  state threaded through the methods adds what lies beyond the object: the state of the
  native side and the trace of foreign calls.
\<close>

record ('w, 'f) ScpiClient =
  handle :: c_void_p
  world :: 'w
  trace :: "'f call list"

definition foreign :: "'f call \<Rightarrow> 'w \<Rightarrow> ('w, 'f) ScpiClient \<Rightarrow> ('w, 'f) ScpiClient" where
  "foreign c w s = s\<lparr>world := w, trace := trace s @ [c]\<rparr>"

subsection \<open>Error conversion\<close>

definition err_msg :: "('w, 'f) driver \<Rightarrow> c_int \<Rightarrow> error + str" where
  "err_msg dll err =
     (case AbsScpiClient_ErrorMessage dll err of
        None \<Rightarrow> Inl AttributeError
      | Some ret \<Rightarrow> decode ret)"

definition check_err :: "('w, 'f) driver \<Rightarrow> c_int \<Rightarrow> error + unit" where
  "check_err dll err =
     (if sint err < 0 then
        (case err_msg dll err of Inl e \<Rightarrow> Inl e | Inr m \<Rightarrow> Inl (ScpiClientError m))
      else Inr ())"

subsection \<open>Lifetime\<close>






subsection \<open>Opening a link\<close>

text \<open>
  \<open>interface_ip.encode() if interface_ip else None\<close>: both \<open>None\<close> and the empty string
  are false, and pass NULL.
\<close>

definition open_udp ::
  "('w, 'f) driver \<Rightarrow> str \<Rightarrow> str option \<Rightarrow> ('w, 'f) ScpiClient \<Rightarrow>
   (error + unit) \<times> ('w, 'f) ScpiClient" where
  "open_udp dll target_ip interface_ip s =
     (let iface = (case interface_ip of
                     None \<Rightarrow> None
                   | Some i \<Rightarrow> if i = [] then None else Some (encode i))
      in case AbsScpiClient_OpenUdp dll (handle s) (encode target_ip) iface (world s) of
           (res, w) \<Rightarrow>
             (check_err dll res,
              foreign (Call_OpenUdp (handle s) (encode target_ip) iface) w s))"


subsection \<open>Queries and commands\<close>

definition get_device_info ::
  "('w, 'f) driver \<Rightarrow> ('w, 'f) ScpiClient \<Rightarrow>
   (error + AbsDeviceInfo) \<times> ('w, 'f) ScpiClient" where
  "get_device_info dll s =
     (case AbsScpiClient_GetDeviceInfo dll (handle s) (world s) of
        (res, written, w) \<Rightarrow>
          (case check_err dll res of
             Inl e \<Rightarrow> Inl e
           | Inr _ \<Rightarrow> Inr (device_info written),
           foreign (Call_GetDeviceInfo (handle s)) w s))"

definition get_device_id ::
  "('w, 'f) driver \<Rightarrow> ('w, 'f) ScpiClient \<Rightarrow> (error + int) \<times> ('w, 'f) ScpiClient" where
  "get_device_id dll s =
     (case AbsScpiClient_GetDeviceId dll (handle s) (world s) of
        (res, dev_id, w) \<Rightarrow>
          (case check_err dll res of
             Inl e \<Rightarrow> Inl e
           | Inr _ \<Rightarrow> Inr (uint dev_id),
           foreign (Call_GetDeviceId (handle s)) w s))"

definition get_ip_address ::
  "('w, 'f) driver \<Rightarrow> ('w, 'f) ScpiClient \<Rightarrow>
   (error + AbsEthernetConfig) \<times> ('w, 'f) ScpiClient" where
  "get_ip_address dll s =
     (case AbsScpiClient_GetIPAddress dll (handle s) (world s) of
        (res, written, w) \<Rightarrow>
          (case check_err dll res of
             Inl e \<Rightarrow> Inl e
           | Inr _ \<Rightarrow> Inr (ethernet_config written),
           foreign (Call_GetIPAddress (handle s)) w s))"

text \<open>
  Assigning bytes to a \<open>c_char * n\<close> field: ctypes measures the value up to its first
  zero byte, raises \<open>ValueError\<close> when that is longer than the field, and otherwise
  copies it to the start of the field (which is zeroed in a new structure).
\<close>

definition set_char_field :: "nat \<Rightarrow> bytes \<Rightarrow> error + bytes" where
  "set_char_field n v =
     (if n < length (c_string v) then
        Inl (ValueError (BytesTooLong (length (c_string v)) n))
      else Inr (char_array n (c_string v)))"

definition set_ip_address ::
  "('w, 'f) driver \<Rightarrow> str \<Rightarrow> str \<Rightarrow> ('w, 'f) ScpiClient \<Rightarrow>
   (error + AbsEthernetConfig) \<times> ('w, 'f) ScpiClient" where
  "set_ip_address dll ip_arg netmask_arg s =
     (case set_char_field 32 (encode ip_arg) of
        Inl e \<Rightarrow> (Inl e, s)
      | Inr ip_field \<Rightarrow>
          (case set_char_field 32 (encode netmask_arg) of
             Inl e \<Rightarrow> (Inl e, s)
           | Inr netmask_field \<Rightarrow>
               (let conf = \<lparr>AbsEthernetConfig.ip = ip_field, netmask = netmask_field\<rparr>
                in case AbsScpiClient_SetIPAddress dll (handle s) conf (world s) of
                     (res, written, w) \<Rightarrow>
                       (case check_err dll res of
                          Inl e \<Rightarrow> Inl e
                        | Inr _ \<Rightarrow> Inr (ethernet_config written),
                        foreign (Call_SetIPAddress (handle s) conf) w s))))"

definition get_calibration_date ::
  "('w, 'f) driver \<Rightarrow> ('w, 'f) ScpiClient \<Rightarrow> (error + str) \<times> ('w, 'f) ScpiClient" where
  "get_calibration_date dll s =
     (case AbsScpiClient_GetCalibrationDate dll (handle s) 128 (world s) of
        (res, written, w) \<Rightarrow>
          (case check_err dll res of
             Inl e \<Rightarrow> Inl e
           | Inr _ \<Rightarrow> decode (c_string (char_array 128 written)),
           foreign (Call_GetCalibrationDate (handle s) 128) w s))"

definition get_error_count ::
  "('w, 'f) driver \<Rightarrow> ('w, 'f) ScpiClient \<Rightarrow> (error + int) \<times> ('w, 'f) ScpiClient" where
  "get_error_count dll s =
     (case AbsScpiClient_GetErrorCount dll (handle s) (world s) of
        (res, count, w) \<Rightarrow>
          (case check_err dll res of
             Inl e \<Rightarrow> Inl e
           | Inr _ \<Rightarrow> Inr (sint count),
           foreign (Call_GetErrorCount (handle s)) w s))"

definition get_next_error ::
  "('w, 'f) driver \<Rightarrow> ('w, 'f) ScpiClient \<Rightarrow>
   (error + int \<times> str) \<times> ('w, 'f) ScpiClient" where
  "get_next_error dll s =
     (case AbsScpiClient_GetNextError dll (handle s) 256 (world s) of
        (res, code, written, w) \<Rightarrow>
          (case check_err dll res of
             Inl e \<Rightarrow> Inl e
           | Inr _ \<Rightarrow>
               (case decode (c_string (char_array 256 written)) of
                  Inl e \<Rightarrow> Inl e
                | Inr m \<Rightarrow> Inr (sint code, m)),
           foreign (Call_GetNextError (handle s) 256) w s))"

definition clear_errors ::
  "('w, 'f) driver \<Rightarrow> ('w, 'f) ScpiClient \<Rightarrow> (error + unit) \<times> ('w, 'f) ScpiClient" where
  "clear_errors dll s =
     (case AbsScpiClient_ClearErrors dll (handle s) (world s) of
        (res, w) \<Rightarrow> (check_err dll res, foreign (Call_ClearErrors (handle s)) w s))"

definition set_cell_voltage ::
  "('w, 'f) driver \<Rightarrow> int \<Rightarrow> 'f \<Rightarrow> ('w, 'f) ScpiClient \<Rightarrow>
   (error + unit) \<times> ('w, 'f) ScpiClient" where
  "set_cell_voltage dll cell voltage s =
     (case AbsScpiClient_SetCellVoltage dll (handle s) (c_uint cell) voltage (world s) of
        (res, w) \<Rightarrow>
          (check_err dll res,
           foreign (Call_SetCellVoltage (handle s) (c_uint cell) voltage) w s))"

definition set_all_cell_voltages ::
  "('w, 'f) driver \<Rightarrow> 'f list \<Rightarrow> ('w, 'f) ScpiClient \<Rightarrow>
   (error + unit) \<times> ('w, 'f) ScpiClient" where
  "set_all_cell_voltages dll voltages s =
     (case AbsScpiClient_SetAllCellVoltages dll (handle s) voltages
             (c_uint (int (length voltages))) (world s) of
        (res, w) \<Rightarrow>
          (check_err dll res,
           foreign (Call_SetAllCellVoltages (handle s) voltages
                      (c_uint (int (length voltages)))) w s))"

definition get_cell_voltage_target ::
  "('w, 'f) driver \<Rightarrow> int \<Rightarrow> ('w, 'f) ScpiClient \<Rightarrow>
   (error + 'f) \<times> ('w, 'f) ScpiClient" where
  "get_cell_voltage_target dll cell s =
     (case AbsScpiClient_GetCellVoltageTarget dll (handle s) (c_uint cell) (world s) of
        (res, voltage, w) \<Rightarrow>
          (case check_err dll res of
             Inl e \<Rightarrow> Inl e
           | Inr _ \<Rightarrow> Inr voltage,
           foreign (Call_GetCellVoltageTarget (handle s) (c_uint cell)) w s))"

text \<open>A \<open>c_float * 8\<close> array holds eight values and starts at zero.\<close>

definition get_all_cell_voltage_targets ::
  "('w, 'f::zero) driver \<Rightarrow> ('w, 'f) ScpiClient \<Rightarrow>
   (error + 'f list) \<times> ('w, 'f) ScpiClient" where
  "get_all_cell_voltage_targets dll s =
     (case AbsScpiClient_GetAllCellVoltageTargets dll (handle s) 8 (world s) of
        (res, written, w) \<Rightarrow>
          (case check_err dll res of
             Inl e \<Rightarrow> Inl e
           | Inr _ \<Rightarrow> Inr (take 8 (written @ replicate 8 0)),
           foreign (Call_GetAllCellVoltageTargets (handle s) 8) w s))"

subsection \<open>Discovery\<close>

text \<open>
  The result array has 32 entries, and \<open>count\<close> goes in as 32. A slice of a ctypes array
  is clamped to the array, so \<open>results[:count.value]\<close> is the first \<open>count\<close> entries and
  never more than the 32 there are.
\<close>

definition multicast_discovery ::
  "('w, 'f) driver \<Rightarrow> str \<Rightarrow> ('w, 'f) ScpiClient \<Rightarrow>
   (error + AbsEthernetDiscoveryResult list) \<times> ('w, 'f) ScpiClient" where
  "multicast_discovery dll interface_ip s =
     (case AbsScpiClient_MulticastDiscovery dll (encode interface_ip) 32 (world s) of
        (res, written, count, w) \<Rightarrow>
          (let results = take 32 (map discovery_result written
                                  @ replicate 32 (discovery_result ([], [])))
           in (case check_err dll res of
                 Inl e \<Rightarrow> Inl e
               | Inr _ \<Rightarrow> Inr (take (unat count) results),
               foreign (Call_MulticastDiscovery (encode interface_ip) 32) w s)))"

subsection \<open>The query and command surface\<close>

text \<open>
  One constructor for each query or command method of \<open>ScpiClient\<close> with its arguments;
  \<open>run\<close> calls the method and keeps, of its result, whether it raised and what.
\<close>

datatype 'f command =
    Cmd_get_device_info
  | Cmd_get_device_id
  | Cmd_get_ip_address
  | Cmd_set_ip_address str str
  | Cmd_get_calibration_date
  | Cmd_get_error_count
  | Cmd_get_next_error
  | Cmd_clear_errors
  | Cmd_set_cell_voltage int 'f
  | Cmd_set_all_cell_voltages "'f list"
  | Cmd_get_cell_voltage_target int
  | Cmd_get_all_cell_voltage_targets

definition raised :: "(error + 'a) \<times> 's \<Rightarrow> error option \<times> 's" where
  "raised p = (case fst p of Inl e \<Rightarrow> (Some e, snd p) | Inr _ \<Rightarrow> (None, snd p))"

fun run ::
  "('w, 'f::zero) driver \<Rightarrow> 'f command \<Rightarrow> ('w, 'f) ScpiClient \<Rightarrow>
   error option \<times> ('w, 'f) ScpiClient" where
  "run dll Cmd_get_device_info s = raised (get_device_info dll s)"
| "run dll Cmd_get_device_id s = raised (get_device_id dll s)"
| "run dll Cmd_get_ip_address s = raised (get_ip_address dll s)"
| "run dll (Cmd_set_ip_address i m) s = raised (set_ip_address dll i m s)"
| "run dll Cmd_get_calibration_date s = raised (get_calibration_date dll s)"
| "run dll Cmd_get_error_count s = raised (get_error_count dll s)"
| "run dll Cmd_get_next_error s = raised (get_next_error dll s)"
| "run dll Cmd_clear_errors s = raised (clear_errors dll s)"
| "run dll (Cmd_set_cell_voltage c v) s = raised (set_cell_voltage dll c v s)"
| "run dll (Cmd_set_all_cell_voltages vs) s = raised (set_all_cell_voltages dll vs s)"
| "run dll (Cmd_get_cell_voltage_target c) s = raised (get_cell_voltage_target dll c s)"
| "run dll Cmd_get_all_cell_voltage_targets s = raised (get_all_cell_voltage_targets dll s)"

subsection \<open>The message lookup of the native library\<close>

text \<open>
  Modelled from the spec: the generic message of the native lookup for a code its table
  does not have, which the spec calls the "unknown error" message. The native library is
  not in the sources.
\<close>

definition unknown_error :: bytes where
  "unknown_error = ''unknown error''"

text \<open>
  Modelled from the spec: \<open>AbsScpiClient_ErrorMessage\<close>, the lookup of the native
  library that \<open>err_msg\<close> calls, is not in the sources. The spec describes it as a fixed
  table from codes to messages, a pure function with an explicit default branch: a code
  the table does not have maps to the generic message, and the lookup never fails. The
  table is a parameter.
\<close>

definition ErrorMessage_table :: "(c_int \<times> bytes) list \<Rightarrow> c_int \<Rightarrow> bytes option" where
  "ErrorMessage_table table err =
     Some (case map_of table err of None \<Rightarrow> unknown_error | Some m \<Rightarrow> m)"

subsection \<open>A library for concrete runs\<close>

text \<open>
  A native library that answers every call with the code \<open>rc\<close>, writes \<open>txt\<close> into
  every text buffer, and reports 40 discovery replies. Floats are written as integers.
  The client \<open>opened\<close> is one whose handle has been initialised.
\<close>

definition stub_driver :: "c_int \<Rightarrow> bytes \<Rightarrow> (unit, int) driver" where
  "stub_driver rc txt =
     \<lparr>AbsScpiClient_ErrorMessage = (\<lambda>err. Some ''device error''),
      AbsScpiClient_Init = (\<lambda>h w. (rc, Some 1, w)),
      AbsScpiClient_Destroy = (\<lambda>h w. (rc, None, w)),
      AbsScpiClient_OpenUdp = (\<lambda>h t i w. (rc, w)),
      AbsScpiClient_OpenSerial = (\<lambda>h p d w. (rc, w)),
      AbsScpiClient_GetDeviceInfo = (\<lambda>h w. (rc, (txt, txt, txt), w)),
      AbsScpiClient_GetDeviceId = (\<lambda>h w. (rc, 5, w)),
      AbsScpiClient_GetIPAddress = (\<lambda>h w. (rc, (txt, txt), w)),
      AbsScpiClient_SetIPAddress =
        (\<lambda>h c w. (rc, (AbsEthernetConfig.ip c, netmask c), w)),
      AbsScpiClient_GetCalibrationDate = (\<lambda>h n w. (rc, txt, w)),
      AbsScpiClient_GetErrorCount = (\<lambda>h w. (rc, 0, w)),
      AbsScpiClient_GetNextError = (\<lambda>h n w. (rc, 0, txt, w)),
      AbsScpiClient_ClearErrors = (\<lambda>h w. (rc, w)),
      AbsScpiClient_SetCellVoltage = (\<lambda>h c v w. (rc, w)),
      AbsScpiClient_SetAllCellVoltages = (\<lambda>h vs n w. (rc, w)),
      AbsScpiClient_GetCellVoltageTarget = (\<lambda>h c w. (rc, 0, w)),
      AbsScpiClient_GetAllCellVoltageTargets = (\<lambda>h n w. (rc, [], w)),
      AbsScpiClient_MulticastDiscovery =
        (\<lambda>i n w. (rc, replicate 40 (txt, txt), 40, w))\<rparr>"

definition opened :: "(unit, int) ScpiClient" where
  "opened = \<lparr>handle = Some 1, world = (), trace = []\<rparr>"


subsection \<open>Session operations and the codes they receive\<close>






subsection \<open>The session of the native library\<close>

text \<open>
  Modelled from the spec: the link of a session, which the native library keeps behind
  the handle and which is not in the sources. A link is a UDP link to a target address,
  with an optional local interface, or a serial link on a port with the device
  identifier that frames are addressed to (the addressing mode).
\<close>

datatype link = UdpLink bytes "bytes option" | SerialLink bytes c_uint

text \<open>
  Modelled from the spec: the states of a session, \<open>Unopened\<close> and \<open>Opened\<close> with the
  one link the session owns.
\<close>

datatype session_state = Unopened | Opened link

text \<open>
  Modelled from the spec: the native side of the call boundary, the state of the session
  and \<open>device\<close>, everything else there (the transport's buffers, the devices and their
  queues).
\<close>

record 'd native =
  session :: session_state
  device :: 'd

text \<open>
  Modelled from the spec: the native library as a state machine over the session, which
  is not in the sources. The spec gives the transitions: \<open>open_udp\<close> and \<open>open_serial\<close>
  take the session to \<open>Opened\<close> with the new link, which replaces any prior one; a query
  or command is a self-loop, and its failure does not change the state; no operation
  besides open, close and replace changes the state; explicit teardown gives
  \<open>Unopened\<close>. An open that fails with a negative code leaves the session as it was, and
  a new handle starts \<open>Unopened\<close>. The codes returned, the values written and the rest
  of the native state are those of \<open>dev\<close>, a parameter.
\<close>

definition native_library :: "('d, 'f) driver \<Rightarrow> ('d native, 'f) driver" where
  "native_library dev =
     \<lparr>AbsScpiClient_ErrorMessage = AbsScpiClient_ErrorMessage dev,
      AbsScpiClient_Init =
        (\<lambda>h w. case AbsScpiClient_Init dev h (device w) of
                  (rc, h', d) \<Rightarrow> (rc, h', \<lparr>session = Unopened, device = d\<rparr>)),
      AbsScpiClient_Destroy =
        (\<lambda>h w. case AbsScpiClient_Destroy dev h (device w) of
                  (rc, h', d) \<Rightarrow> (rc, h', \<lparr>session = Unopened, device = d\<rparr>)),
      AbsScpiClient_OpenUdp =
        (\<lambda>h t i w. case AbsScpiClient_OpenUdp dev h t i (device w) of
                  (rc, d) \<Rightarrow>
                    (rc, \<lparr>session = (if sint rc < 0 then session w
                                      else Opened (UdpLink t i)),
                          device = d\<rparr>)),
      AbsScpiClient_OpenSerial =
        (\<lambda>h p n w. case AbsScpiClient_OpenSerial dev h p n (device w) of
                  (rc, d) \<Rightarrow>
                    (rc, \<lparr>session = (if sint rc < 0 then session w
                                      else Opened (SerialLink p n)),
                          device = d\<rparr>)),
      AbsScpiClient_GetDeviceInfo =
        (\<lambda>h w. case AbsScpiClient_GetDeviceInfo dev h (device w) of
                  (rc, out, d) \<Rightarrow> (rc, out, w\<lparr>device := d\<rparr>)),
      AbsScpiClient_GetDeviceId =
        (\<lambda>h w. case AbsScpiClient_GetDeviceId dev h (device w) of
                  (rc, out, d) \<Rightarrow> (rc, out, w\<lparr>device := d\<rparr>)),
      AbsScpiClient_GetIPAddress =
        (\<lambda>h w. case AbsScpiClient_GetIPAddress dev h (device w) of
                  (rc, out, d) \<Rightarrow> (rc, out, w\<lparr>device := d\<rparr>)),
      AbsScpiClient_SetIPAddress =
        (\<lambda>h c w. case AbsScpiClient_SetIPAddress dev h c (device w) of
                  (rc, out, d) \<Rightarrow> (rc, out, w\<lparr>device := d\<rparr>)),
      AbsScpiClient_GetCalibrationDate =
        (\<lambda>h n w. case AbsScpiClient_GetCalibrationDate dev h n (device w) of
                  (rc, out, d) \<Rightarrow> (rc, out, w\<lparr>device := d\<rparr>)),
      AbsScpiClient_GetErrorCount =
        (\<lambda>h w. case AbsScpiClient_GetErrorCount dev h (device w) of
                  (rc, out, d) \<Rightarrow> (rc, out, w\<lparr>device := d\<rparr>)),
      AbsScpiClient_GetNextError =
        (\<lambda>h n w. case AbsScpiClient_GetNextError dev h n (device w) of
                  (rc, code, out, d) \<Rightarrow> (rc, code, out, w\<lparr>device := d\<rparr>)),
      AbsScpiClient_ClearErrors =
        (\<lambda>h w. case AbsScpiClient_ClearErrors dev h (device w) of
                  (rc, d) \<Rightarrow> (rc, w\<lparr>device := d\<rparr>)),
      AbsScpiClient_SetCellVoltage =
        (\<lambda>h c v w. case AbsScpiClient_SetCellVoltage dev h c v (device w) of
                  (rc, d) \<Rightarrow> (rc, w\<lparr>device := d\<rparr>)),
      AbsScpiClient_SetAllCellVoltages =
        (\<lambda>h vs n w. case AbsScpiClient_SetAllCellVoltages dev h vs n (device w) of
                  (rc, d) \<Rightarrow> (rc, w\<lparr>device := d\<rparr>)),
      AbsScpiClient_GetCellVoltageTarget =
        (\<lambda>h c w. case AbsScpiClient_GetCellVoltageTarget dev h c (device w) of
                  (rc, out, d) \<Rightarrow> (rc, out, w\<lparr>device := d\<rparr>)),
      AbsScpiClient_GetAllCellVoltageTargets =
        (\<lambda>h n w. case AbsScpiClient_GetAllCellVoltageTargets dev h n (device w) of
                  (rc, out, d) \<Rightarrow> (rc, out, w\<lparr>device := d\<rparr>)),
      AbsScpiClient_MulticastDiscovery =
        (\<lambda>i n w. case AbsScpiClient_MulticastDiscovery dev i n (device w) of
                  (rc, out, count, d) \<Rightarrow> (rc, out, count, w\<lparr>device := d\<rparr>))\<rparr>"

text \<open>A client with a handle and no link yet, for concrete runs.\<close>

definition unopened :: "(unit native, int) ScpiClient" where
  "unopened = \<lparr>handle = Some 1, world = \<lparr>session = Unopened, device = ()\<rparr>, trace = []\<rparr>"

text \<open>The same client after \<open>open_udp("10.0.0.5")\<close> has succeeded.\<close>

definition opened_udp :: "(unit native, int) ScpiClient" where
  "opened_udp =
     \<lparr>handle = Some 1,
      world = \<lparr>session = Opened (UdpLink ''10.0.0.5'' None), device = ()\<rparr>,
      trace = [Call_OpenUdp (Some 1) ''10.0.0.5'' None]\<rparr>"

subsection \<open>Width of a text value\<close>

text \<open>
  \<open>bounded_text n buf r\<close>: when the outcome \<open>r\<close> of reading the buffer \<open>buf\<close> is a
  text, the text has at most \<open>n\<close> bytes, and at most \<open>n - 1\<close> when the buffer holds a
  zero byte.
\<close>

definition bounded_text :: "nat \<Rightarrow> bytes \<Rightarrow> error + str \<Rightarrow> bool" where
  "bounded_text n buf r =
     (\<forall>t. r = Inr t \<longrightarrow> length t \<le> n \<and> (NUL \<in> set buf \<longrightarrow> length t \<le> n - 1))"

section \<open>Properties\<close>

subsection \<open>Facts about error conversion and buffers\<close>

lemma check_err_not_ValueError: "check_err dll err \<noteq> Inl (ValueError x)"
  by (auto simp: check_err_def err_msg_def decode_def
      split: sum.splits option.splits if_splits)

lemma check_err_Inr_iff: "(check_err dll err = Inr ()) = (\<not> sint err < 0)"
  by (auto simp: check_err_def split: sum.splits)

lemma utf8_valid_unknown_error: "utf8_valid unknown_error"
  by (simp add: unknown_error_def byte_def)

lemma check_err_Inl: "check_err dll err = Inl e \<Longrightarrow> sint err < 0"
  by (simp add: check_err_def split: if_splits)

lemma length_char_array: "length (char_array n b) = n"
  by (simp add: char_array_def)

lemma length_c_string_le: "length (c_string buf) \<le> length buf"
  by (simp add: c_string_def length_takeWhile_le)

lemma length_c_string_less:
  assumes "NUL \<in> set buf"
  shows "length (c_string buf) < length buf"
proof (rule ccontr)
  assume "\<not> length (c_string buf) < length buf"
  with length_c_string_le [of buf] have "length (takeWhile (\<lambda>c. c \<noteq> NUL) buf) = length buf"
    by (simp add: c_string_def)
  moreover have "takeWhile (\<lambda>c. c \<noteq> NUL) buf @ dropWhile (\<lambda>c. c \<noteq> NUL) buf = buf"
    by (rule takeWhile_dropWhile_id)
  ultimately have "takeWhile (\<lambda>c. c \<noteq> NUL) buf = buf"
    by (metis append_eq_conv_conj take_all order_refl)
  then have "\<forall>c \<in> set buf. c \<noteq> NUL"
    by simp
  with assms show False by blast
qed

lemma decode_Inr: "decode b = Inr t \<Longrightarrow> t = b"
  by (simp add: decode_def split: if_splits)

lemma bounded_text_buffer:
  "length buf = n \<Longrightarrow> bounded_text n buf (decode (c_string buf))"
  unfolding bounded_text_def
proof (intro allI impI conjI)
  fix t assume n: "length buf = n" and d: "decode (c_string buf) = Inr t"
  from d have t: "t = c_string buf" by (rule decode_Inr)
  from t n length_c_string_le [of buf] show "length t \<le> n" by simp
  assume "NUL \<in> set buf"
  from length_c_string_less [OF this] t n show "length t \<le> n - 1" by simp
qed

lemma bounded_text_char_array:
  "bounded_text n (char_array n w) (decode (c_string (char_array n w)))"
  by (rule bounded_text_buffer) (rule length_char_array)

lemma bounded_text_Inl: "bounded_text n buf (Inl e)"
  by (simp add: bounded_text_def)

lemma c_string_char_array:
  assumes "NUL \<notin> set b" and "length b \<le> n"
  shows "c_string (char_array n b) = b"
proof -
  have "char_array n b = b @ replicate (n - length b) NUL"
    using assms(2) by (simp add: char_array_def)
  moreover have "takeWhile (\<lambda>c. c \<noteq> NUL) (b @ replicate (n - length b) NUL) = b"
  proof -
    from assms(1) have all: "\<forall>c \<in> set b. c \<noteq> NUL" by blast
    have "takeWhile (\<lambda>c. c \<noteq> NUL) (replicate (n - length b) NUL) = []"
      by (cases "n - length b") simp_all
    with all show ?thesis by simp
  qed
  ultimately show ?thesis by (simp add: c_string_def)
qed

lemma NUL_in_char_array: "length b < n \<Longrightarrow> NUL \<in> set (char_array n b)"
  by (auto simp: char_array_def)

lemma utf8_valid_ascii: "\<forall>c \<in> set b. byte c < 0x80 \<Longrightarrow> utf8_valid b"
  by (induction b) auto

lemma handle_foreign: "handle (foreign c w s) = handle s"
  by (simp add: foreign_def)

subsection \<open>Cell voltages\<close>

text \<open>
  C1 (as amended). \<open>set_cell_voltage\<close> makes no check of the channel index. For every
  index, inside \<open>[0,7]\<close> or not, it makes exactly one foreign call,
  \<open>AbsScpiClient_SetCellVoltage\<close> with the index reduced modulo \<open>2 ^ 32\<close>, and its
  outcome is the conversion of the code that call returned: it returns normally exactly
  when the code is not negative, and it never raises \<open>ValueError\<close>.
\<close>

theorem set_cell_voltage_delegates:
  "trace (snd (set_cell_voltage dll cell v s))
     = trace s @ [Call_SetCellVoltage (handle s) (c_uint cell) v]
   \<and> uint (c_uint cell) = cell mod 2 ^ 32
   \<and> fst (set_cell_voltage dll cell v s)
     = check_err dll
         (fst (AbsScpiClient_SetCellVoltage dll (handle s) (c_uint cell) v (world s)))
   \<and> (fst (set_cell_voltage dll cell v s) = Inr ())
     = (\<not> sint (fst (AbsScpiClient_SetCellVoltage dll (handle s) (c_uint cell) v
                        (world s))) < 0)
   \<and> (\<forall>x. fst (set_cell_voltage dll cell v s) \<noteq> Inl (ValueError x))"
  by (simp add: set_cell_voltage_def foreign_def c_uint_def uint_word_of_int
      check_err_Inr_iff check_err_not_ValueError split: prod.split)

text \<open>
  C1 as stated fails at channel 8: the foreign call is made, and the outcome is the
  library's (normal return on code 0, \<open>ScpiClientError\<close> on code -12), not a validation
  error raised before the call.
\<close>

theorem set_cell_voltage_counterexample:
  "set_cell_voltage (stub_driver 0 []) 8 42 opened
     = (Inr (), \<lparr>handle = Some 1, world = (),
                 trace = [Call_SetCellVoltage (Some 1) 8 42]\<rparr>)
   \<and> set_cell_voltage (stub_driver (- 12) []) 8 42 opened
     = (Inl (ScpiClientError ''device error''),
        \<lparr>handle = Some 1, world = (), trace = [Call_SetCellVoltage (Some 1) 8 42]\<rparr>)"
  by (simp add: set_cell_voltage_def stub_driver_def opened_def foreign_def c_uint_def
      check_err_def err_msg_def decode_def byte_def)

text \<open>
  C2 (as amended). \<open>set_all_cell_voltages\<close> makes no check of the length. For every
  sequence, of length 8 or not, it makes exactly one foreign call,
  \<open>AbsScpiClient_SetAllCellVoltages\<close> with the values and their number, and its outcome
  is the conversion of the code that call returned: it returns normally exactly when the
  code is not negative, and it never raises \<open>ValueError\<close>.
\<close>

theorem set_all_cell_voltages_delegates:
  "trace (snd (set_all_cell_voltages dll vs s))
     = trace s @ [Call_SetAllCellVoltages (handle s) vs (c_uint (int (length vs)))]
   \<and> fst (set_all_cell_voltages dll vs s)
     = check_err dll (fst (AbsScpiClient_SetAllCellVoltages dll (handle s) vs
                             (c_uint (int (length vs))) (world s)))
   \<and> (fst (set_all_cell_voltages dll vs s) = Inr ())
     = (\<not> sint (fst (AbsScpiClient_SetAllCellVoltages dll (handle s) vs
                        (c_uint (int (length vs))) (world s))) < 0)
   \<and> (\<forall>x. fst (set_all_cell_voltages dll vs s) \<noteq> Inl (ValueError x))"
  by (simp add: set_all_cell_voltages_def foreign_def check_err_Inr_iff
      check_err_not_ValueError split: prod.split)

text \<open>
  C2 as stated fails at a sequence of three values: the foreign call is made with count
  3, and the outcome is the library's.
\<close>

theorem set_all_cell_voltages_counterexample:
  "set_all_cell_voltages (stub_driver 0 []) [1, 2, 3] opened
     = (Inr (), \<lparr>handle = Some 1, world = (),
                 trace = [Call_SetAllCellVoltages (Some 1) [1, 2, 3] 3]\<rparr>)
   \<and> set_all_cell_voltages (stub_driver (- 12) []) [1, 2, 3] opened
     = (Inl (ScpiClientError ''device error''),
        \<lparr>handle = Some 1, world = (),
         trace = [Call_SetAllCellVoltages (Some 1) [1, 2, 3] 3]\<rparr>)"
  by (simp add: set_all_cell_voltages_def stub_driver_def opened_def foreign_def c_uint_def
      check_err_def err_msg_def decode_def byte_def)

subsection \<open>Return codes\<close>
























text \<open>
  C4. With the lookup of the native library as the spec describes it (a fixed table with
  a default branch, messages in UTF-8), \<open>err_msg\<close> returns a message for every code: the
  table's message for a code the table has, the generic one for every other code. It
  never raises.
\<close>

theorem err_msg_total:
  assumes "AbsScpiClient_ErrorMessage dll = ErrorMessage_table table"
    and "\<forall>m \<in> snd ` set table. utf8_valid m"
  shows "err_msg dll err
           = Inr (case map_of table err of None \<Rightarrow> unknown_error | Some m \<Rightarrow> m)"
proof (cases "map_of table err")
  case None
  with assms(1) show ?thesis
    by (simp add: err_msg_def ErrorMessage_table_def decode_def utf8_valid_unknown_error)
next
  case (Some m)
  then have "(err, m) \<in> set table" by (rule map_of_SomeD)
  then have "m \<in> snd ` set table" by force
  with assms(2) have "utf8_valid m" by blast
  with Some assms(1) show ?thesis
    by (simp add: err_msg_def ErrorMessage_table_def decode_def)
qed

theorem err_msg_total_witness:
  "AbsScpiClient_ErrorMessage
      ((stub_driver 0 [])
         \<lparr>AbsScpiClient_ErrorMessage := ErrorMessage_table [(- 1, ''timeout'')]\<rparr>)
     = ErrorMessage_table [(- 1, ''timeout'')]
   \<and> utf8_valid ''timeout''
   \<and> err_msg ((stub_driver 0 [])
         \<lparr>AbsScpiClient_ErrorMessage := ErrorMessage_table [(- 1, ''timeout'')]\<rparr>) (- 1)
     = Inr ''timeout''
   \<and> err_msg ((stub_driver 0 [])
         \<lparr>AbsScpiClient_ErrorMessage := ErrorMessage_table [(- 1, ''timeout'')]\<rparr>) (- 77)
     = Inr ''unknown error''"
proof -
  let ?d = "(stub_driver 0 [])
              \<lparr>AbsScpiClient_ErrorMessage := ErrorMessage_table [(- 1, ''timeout'')]\<rparr>"
  have h1: "AbsScpiClient_ErrorMessage ?d = ErrorMessage_table [(- 1, ''timeout'')]"
    by simp
  have h2: "\<forall>m \<in> snd ` set [(- 1 :: c_int, ''timeout'')]. utf8_valid m"
    by (simp add: byte_def)
  have h3: "utf8_valid ''timeout''"
    by (simp add: byte_def)
  from err_msg_total [OF h1 h2, of "- 1"] err_msg_total [OF h1 h2, of "- 77"] h1 h3
  show ?thesis by (simp add: unknown_error_def)
qed

subsection \<open>Discovery\<close>

text \<open>
  C5. When the library reports zero replies (a code that is not negative, and a count of
  0), \<open>multicast_discovery\<close> returns the empty list and raises nothing. Whatever the
  library writes and whatever count it reports, a list that \<open>multicast_discovery\<close>
  returns has at most 32 entries. The call is made once, with room for 32 results.
\<close>

theorem multicast_discovery_bounded:
  "(\<forall>rs. fst (multicast_discovery dll i s) = Inr rs \<longrightarrow> length rs \<le> 32)
   \<and> (\<forall>res written w.
         AbsScpiClient_MulticastDiscovery dll (encode i) 32 (world s) = (res, written, 0, w)
         \<and> \<not> sint res < 0 \<longrightarrow>
         fst (multicast_discovery dll i s) = Inr [])
   \<and> trace (snd (multicast_discovery dll i s))
     = trace s @ [Call_MulticastDiscovery (encode i) 32]"
  by (auto simp: multicast_discovery_def Let_def foreign_def
      dest: check_err_Inl split: prod.splits sum.splits)

theorem multicast_discovery_bounded_witness:
  "map_sum id length (fst (multicast_discovery (stub_driver 0 ''10.0.0.7'') ''10.0.0.1'' opened))
     = Inr 32
   \<and> fst (multicast_discovery
            ((stub_driver 0 [])\<lparr>AbsScpiClient_MulticastDiscovery := (\<lambda>i n w. (0, [], 0, w))\<rparr>)
            ''10.0.0.1'' opened) = Inr []"
proof -
  let ?d = "(stub_driver 0 [])\<lparr>AbsScpiClient_MulticastDiscovery := (\<lambda>i n w. (0, [], 0, w))\<rparr>"
  have a: "map_sum id length
             (fst (multicast_discovery (stub_driver 0 ''10.0.0.7'') ''10.0.0.1'' opened))
           = Inr 32"
    by (simp add: multicast_discovery_def stub_driver_def opened_def check_err_def Let_def)
  have h: "AbsScpiClient_MulticastDiscovery ?d (encode ''10.0.0.1'') 32 (world opened)
             = (0, [], 0, ()) \<and> \<not> sint (0 :: c_int) < 0"
    by simp
  from multicast_discovery_bounded [of ?d "''10.0.0.1''" opened] h
  have b: "fst (multicast_discovery ?d ''10.0.0.1'' opened) = Inr []"
    by blast
  from a b show ?thesis by simp
qed

subsection \<open>Opening a serial link\<close>



subsection \<open>Session state\<close>

text \<open>
  The queries and commands pass the handle by value: none of them assigns it. Each makes
  one foreign call at most, to its own entry point, and so none of them moves the session
  of the native library.
\<close>

lemma world_foreign: "world (foreign c w s) = w"
  by (simp add: foreign_def)

lemma run_handle: "handle (snd (run dll cmd s)) = handle s"
  by (cases cmd)
    (simp_all add: raised_def get_device_info_def get_device_id_def get_ip_address_def
      set_ip_address_def get_calibration_date_def get_error_count_def get_next_error_def
      clear_errors_def set_cell_voltage_def set_all_cell_voltages_def
      get_cell_voltage_target_def get_all_cell_voltage_targets_def handle_foreign Let_def
      split: prod.split sum.split)

lemma run_session:
  "session (world (snd (run (native_library dev) cmd s))) = session (world s)"
  by (cases cmd)
    (simp_all add: raised_def get_device_info_def get_device_id_def get_ip_address_def
      set_ip_address_def get_calibration_date_def get_error_count_def get_next_error_def
      clear_errors_def set_cell_voltage_def set_all_cell_voltages_def
      get_cell_voltage_target_def get_all_cell_voltage_targets_def world_foreign Let_def
      native_library_def split: prod.split sum.split)

text \<open>
  C7. With the session of the native library as the spec describes it, when a query or
  command raises, the session is in the state it was in before the call, with the same
  link and the same addressing mode, and the handle of the client is the one it had:
  a session that was \<open>Opened\<close> remains \<open>Opened\<close>. The same holds after the operation
  is tried again.
\<close>

theorem failed_command_keeps_session:
  "fst (run (native_library dev) cmd s) = Some e \<Longrightarrow>
     session (world (snd (run (native_library dev) cmd s))) = session (world s)
     \<and> handle (snd (run (native_library dev) cmd s)) = handle s
     \<and> session (world (snd (run (native_library dev) cmd
                               (snd (run (native_library dev) cmd s)))))
       = session (world s)
     \<and> handle (snd (run (native_library dev) cmd (snd (run (native_library dev) cmd s))))
       = handle s"
  by (simp add: run_handle run_session)

theorem failed_command_keeps_session_witness:
  "open_udp (native_library (stub_driver 0 [])) ''10.0.0.5'' None unopened
     = (Inr (), opened_udp)
   \<and> fst (run (native_library (stub_driver (- 12) [])) Cmd_get_all_cell_voltage_targets
            opened_udp)
     = Some (ScpiClientError ''device error'')
   \<and> session (world (snd (run (native_library (stub_driver (- 12) []))
                              Cmd_get_all_cell_voltage_targets opened_udp)))
     = Opened (UdpLink ''10.0.0.5'' None)
   \<and> handle (snd (run (native_library (stub_driver (- 12) []))
                     Cmd_get_all_cell_voltage_targets opened_udp))
     = Some 1"
proof -
  have o: "open_udp (native_library (stub_driver 0 [])) ''10.0.0.5'' None unopened
             = (Inr (), opened_udp)"
    by (simp add: open_udp_def native_library_def stub_driver_def unopened_def opened_udp_def
        encode_def check_err_def foreign_def)
  have h: "fst (run (native_library (stub_driver (- 12) [])) Cmd_get_all_cell_voltage_targets
                 opened_udp)
             = Some (ScpiClientError ''device error'')"
    by (simp add: raised_def get_all_cell_voltage_targets_def native_library_def
        stub_driver_def opened_udp_def check_err_def err_msg_def decode_def byte_def)
  from failed_command_keeps_session [OF h] o h show ?thesis
    by (simp add: opened_udp_def)
qed

subsection \<open>Text widths\<close>

lemma device_info_bounded:
  "bounded_text 128 (part_number (device_info w)) (AbsDeviceInfo_get_part_number (device_info w))
   \<and> bounded_text 128 (AbsDeviceInfo.serial (device_info w)) (AbsDeviceInfo_get_serial (device_info w))
   \<and> bounded_text 128 (version (device_info w)) (AbsDeviceInfo_get_version (device_info w))"
  by (cases w)
    (simp add: device_info_def AbsDeviceInfo_get_part_number_def AbsDeviceInfo_get_serial_def
      AbsDeviceInfo_get_version_def bounded_text_char_array)

lemma ethernet_config_bounded:
  "bounded_text 32 (AbsEthernetConfig.ip (ethernet_config w))
     (AbsEthernetConfig_get_ip_address (ethernet_config w))
   \<and> bounded_text 32 (netmask (ethernet_config w))
     (AbsEthernetConfig_get_netmask (ethernet_config w))"
  by (cases w)
    (simp add: ethernet_config_def AbsEthernetConfig_get_ip_address_def
      AbsEthernetConfig_get_netmask_def bounded_text_char_array)

lemma discovery_result_bounded:
  "bounded_text 32 (AbsEthernetDiscoveryResult.ip (discovery_result w))
     (AbsEthernetDiscoveryResult_get_ip_address (discovery_result w))
   \<and> bounded_text 128 (AbsEthernetDiscoveryResult.serial (discovery_result w))
     (AbsEthernetDiscoveryResult_get_serial (discovery_result w))"
  by (cases w)
    (simp add: discovery_result_def AbsEthernetDiscoveryResult_get_ip_address_def
      AbsEthernetDiscoveryResult_get_serial_def bounded_text_char_array)

lemma get_device_info_written:
  "fst (get_device_info dll s) = Inr info \<Longrightarrow> \<exists>w. info = device_info w"
  by (auto simp: get_device_info_def split: prod.splits sum.splits)

lemma get_ip_address_written:
  "fst (get_ip_address dll s) = Inr conf \<Longrightarrow> \<exists>w. conf = ethernet_config w"
  by (auto simp: get_ip_address_def split: prod.splits sum.splits)

lemma set_ip_address_written:
  "fst (set_ip_address dll i m s) = Inr conf \<Longrightarrow> \<exists>w. conf = ethernet_config w"
  by (auto simp: set_ip_address_def Let_def split: prod.splits sum.splits)

lemma multicast_discovery_written:
  assumes "fst (multicast_discovery dll i s) = Inr rs" and "r \<in> set rs"
  shows "\<exists>w. r = discovery_result w"
proof -
  obtain res written count w where
    call: "AbsScpiClient_MulticastDiscovery dll (encode i) 32 (world s)
             = (res, written, count, w)"
    by (cases "AbsScpiClient_MulticastDiscovery dll (encode i) 32 (world s)") auto
  let ?results = "take 32 (map discovery_result written
                           @ replicate 32 (discovery_result ([], [])))"
  from assms(1) call have "rs = take (unat count) ?results"
    by (auto simp: multicast_discovery_def Let_def split: sum.splits)
  then have "set rs \<subseteq> set ?results"
    by (simp only: set_take_subset)
  also have "\<dots> \<subseteq> set (map discovery_result written
                         @ replicate 32 (discovery_result ([], [])))"
    by (rule set_take_subset)
  finally have "r \<in> set (map discovery_result written
                          @ replicate 32 (discovery_result ([], [])))"
    using assms(2) by blast
  then show ?thesis by auto
qed

lemma get_next_error_bounded:
  "bounded_text 256
     (char_array 256 (fst (snd (snd (AbsScpiClient_GetNextError dll (handle s) 256 (world s))))))
     (map_sum id snd (fst (get_next_error dll s)))"
proof -
  obtain res code written w where
    call: "AbsScpiClient_GetNextError dll (handle s) 256 (world s) = (res, code, written, w)"
    by (cases "AbsScpiClient_GetNextError dll (handle s) 256 (world s)") auto
  have "map_sum id snd (fst (get_next_error dll s)) = decode (c_string (char_array 256 written))
        \<or> (\<exists>e. map_sum id snd (fst (get_next_error dll s)) = Inl e)"
    using call by (auto simp: get_next_error_def split: sum.splits)
  then show ?thesis
    using call bounded_text_char_array [of 256 written]
    by (auto simp: bounded_text_Inl)
qed

lemma get_calibration_date_bounded:
  "bounded_text 128
     (char_array 128 (fst (snd (AbsScpiClient_GetCalibrationDate dll (handle s) 128 (world s)))))
     (fst (get_calibration_date dll s))"
proof -
  obtain res written w where
    call: "AbsScpiClient_GetCalibrationDate dll (handle s) 128 (world s) = (res, written, w)"
    by (cases "AbsScpiClient_GetCalibrationDate dll (handle s) 128 (world s)") auto
  have "fst (get_calibration_date dll s) = decode (c_string (char_array 128 written))
        \<or> (\<exists>e. fst (get_calibration_date dll s) = Inl e)"
    using call by (auto simp: get_calibration_date_def split: sum.splits)
  then show ?thesis
    using call bounded_text_char_array [of 128 written]
    by (auto simp: bounded_text_Inl)
qed

text \<open>
  C8 (as amended). Every text value returned to the caller fits its buffer: at most 128
  bytes for \<open>part_number\<close>, \<open>serial\<close> and \<open>version\<close> of a device-info result, for the
  \<open>serial\<close> of a discovery result and for the calibration date, at most 32 bytes for
  \<open>ip\<close> and \<open>netmask\<close> of an Ethernet config and the \<open>ip\<close> of a discovery result, at
  most 256 bytes for the message of \<open>get_next_error\<close>. Whenever the buffer holds a zero
  byte after the call (the library ended the text inside the buffer), the value is one
  byte shorter at most: 127, 31 and 255 bytes.
\<close>

theorem text_values_within_buffers:
  "(\<forall>info. fst (get_device_info dll s) = Inr info \<longrightarrow>
      bounded_text 128 (part_number info) (AbsDeviceInfo_get_part_number info)
      \<and> bounded_text 128 (AbsDeviceInfo.serial info) (AbsDeviceInfo_get_serial info)
      \<and> bounded_text 128 (version info) (AbsDeviceInfo_get_version info))
   \<and> (\<forall>conf. fst (get_ip_address dll s) = Inr conf
             \<or> fst (set_ip_address dll i m s) = Inr conf \<longrightarrow>
      bounded_text 32 (AbsEthernetConfig.ip conf) (AbsEthernetConfig_get_ip_address conf)
      \<and> bounded_text 32 (netmask conf) (AbsEthernetConfig_get_netmask conf))
   \<and> (\<forall>rs r. fst (multicast_discovery dll iface s) = Inr rs \<and> r \<in> set rs \<longrightarrow>
      bounded_text 32 (AbsEthernetDiscoveryResult.ip r)
        (AbsEthernetDiscoveryResult_get_ip_address r)
      \<and> bounded_text 128 (AbsEthernetDiscoveryResult.serial r)
        (AbsEthernetDiscoveryResult_get_serial r))
   \<and> bounded_text 256
       (char_array 256
          (fst (snd (snd (AbsScpiClient_GetNextError dll (handle s) 256 (world s))))))
       (map_sum id snd (fst (get_next_error dll s)))
   \<and> bounded_text 128
       (char_array 128
          (fst (snd (AbsScpiClient_GetCalibrationDate dll (handle s) 128 (world s)))))
       (fst (get_calibration_date dll s))"
proof (intro conjI allI impI)
  fix info assume "fst (get_device_info dll s) = Inr info"
  then obtain w where w: "info = device_info w" by (blast dest: get_device_info_written)
  from device_info_bounded [of w] w
  show "bounded_text 128 (part_number info) (AbsDeviceInfo_get_part_number info)"
    and "bounded_text 128 (AbsDeviceInfo.serial info) (AbsDeviceInfo_get_serial info)"
    and "bounded_text 128 (version info) (AbsDeviceInfo_get_version info)"
    by simp_all
next
  fix conf assume "fst (get_ip_address dll s) = Inr conf
                   \<or> fst (set_ip_address dll i m s) = Inr conf"
  then obtain w where w: "conf = ethernet_config w"
    by (blast dest: get_ip_address_written set_ip_address_written)
  from ethernet_config_bounded [of w] w
  show "bounded_text 32 (AbsEthernetConfig.ip conf) (AbsEthernetConfig_get_ip_address conf)"
    and "bounded_text 32 (netmask conf) (AbsEthernetConfig_get_netmask conf)"
    by simp_all
next
  fix rs r assume "fst (multicast_discovery dll iface s) = Inr rs \<and> r \<in> set rs"
  then obtain w where w: "r = discovery_result w"
    by (blast dest: multicast_discovery_written)
  from discovery_result_bounded [of w] w
  show "bounded_text 32 (AbsEthernetDiscoveryResult.ip r)
          (AbsEthernetDiscoveryResult_get_ip_address r)"
    and "bounded_text 128 (AbsEthernetDiscoveryResult.serial r)
          (AbsEthernetDiscoveryResult_get_serial r)"
    by simp_all
next
  show "bounded_text 256
       (char_array 256
          (fst (snd (snd (AbsScpiClient_GetNextError dll (handle s) 256 (world s))))))
       (map_sum id snd (fst (get_next_error dll s)))"
    by (rule get_next_error_bounded)
next
  show "bounded_text 128
       (char_array 128
          (fst (snd (AbsScpiClient_GetCalibrationDate dll (handle s) 128 (world s)))))
       (fst (get_calibration_date dll s))"
    by (rule get_calibration_date_bounded)
qed

text \<open>
  C8 as stated fails when the library fills a buffer to its last byte: the calibration
  date and the part number read back are then 128 bytes long.
\<close>

theorem text_width_counterexample:
  "map_sum id length
     (fst (get_calibration_date (stub_driver 0 (replicate 128 (CHR ''A''))) opened))
     = Inr 128
   \<and> fst (get_device_info (stub_driver 0 (replicate 128 (CHR ''A''))) opened)
     = Inr (device_info (replicate 128 (CHR ''A''), replicate 128 (CHR ''A''),
                         replicate 128 (CHR ''A'')))
   \<and> map_sum id length
       (AbsDeviceInfo_get_part_number
          (device_info (replicate 128 (CHR ''A''), replicate 128 (CHR ''A''),
                        replicate 128 (CHR ''A''))))
     = Inr 128"
proof -
  let ?a = "replicate 128 (CHR ''A'')"
  have c: "c_string (char_array 128 ?a) = ?a"
    by (rule c_string_char_array) (simp_all add: NUL_def)
  have v: "utf8_valid ?a"
    by (rule utf8_valid_ascii) (simp add: byte_def)
  from c v show ?thesis
    by (simp add: get_calibration_date_def get_device_info_def stub_driver_def opened_def
        check_err_def decode_def device_info_def AbsDeviceInfo_get_part_number_def)
qed

theorem text_values_within_buffers_witness:
  "fst (get_calibration_date (stub_driver 0 ''SN-42'') opened) = Inr ''SN-42''
   \<and> NUL \<in> set (char_array 128 ''SN-42'')
   \<and> length ''SN-42'' \<le> 128 - 1
   \<and> fst (get_device_info (stub_driver 0 ''SN-42'') opened)
     = Inr (device_info (''SN-42'', ''SN-42'', ''SN-42''))
   \<and> AbsDeviceInfo_get_serial (device_info (''SN-42'', ''SN-42'', ''SN-42''))
     = Inr ''SN-42''
   \<and> fst (multicast_discovery (stub_driver 0 ''SN-42'') ''10.0.0.1'' opened)
     = Inr (replicate 32 (discovery_result (''SN-42'', ''SN-42'')))
   \<and> AbsEthernetDiscoveryResult_get_ip_address (discovery_result (''SN-42'', ''SN-42''))
     = Inr ''SN-42''
   \<and> NUL \<in> set (char_array 32 ''SN-42'')
   \<and> length ''SN-42'' \<le> 32 - 1"
proof -
  let ?t = "''SN-42''"
  let ?d = "stub_driver 0 ?t"
  have c: "c_string (char_array 128 ?t) = ?t" "c_string (char_array 32 ?t) = ?t"
    by (rule c_string_char_array; simp add: NUL_def)+
  have v: "utf8_valid ?t"
    by (simp add: byte_def)
  from c v have r: "fst (get_calibration_date ?d opened) = Inr ?t"
    by (simp add: get_calibration_date_def stub_driver_def opened_def check_err_def decode_def)
  have n: "NUL \<in> set (char_array 128 ?t)" "NUL \<in> set (char_array 32 ?t)"
    by (rule NUL_in_char_array; simp)+
  have w: "fst (snd (AbsScpiClient_GetCalibrationDate ?d (handle opened) 128 (world opened)))
             = ?t"
    by (simp add: stub_driver_def)
  have i: "fst (get_device_info ?d opened) = Inr (device_info (?t, ?t, ?t))"
    by (simp add: get_device_info_def stub_driver_def opened_def check_err_def)
  from c v have g: "AbsDeviceInfo_get_serial (device_info (?t, ?t, ?t)) = Inr ?t"
    by (simp add: AbsDeviceInfo_get_serial_def device_info_def decode_def)
  have m: "fst (multicast_discovery ?d ''10.0.0.1'' opened)
             = Inr (replicate 32 (discovery_result (?t, ?t)))"
    by (simp add: multicast_discovery_def stub_driver_def opened_def check_err_def Let_def)
  from c v have a: "AbsEthernetDiscoveryResult_get_ip_address (discovery_result (?t, ?t)) = Inr ?t"
    by (simp add: AbsEthernetDiscoveryResult_get_ip_address_def discovery_result_def decode_def)
  have mem: "discovery_result (?t, ?t) \<in> set (replicate 32 (discovery_result (?t, ?t)))"
    by simp
  have ni: "NUL \<in> set (AbsEthernetDiscoveryResult.ip (discovery_result (?t, ?t)))"
    using n(2) by (simp add: discovery_result_def)
  note th = text_values_within_buffers [of ?d opened _ _ "''10.0.0.1''"]
  from th r n w have l1: "length ?t \<le> 128 - 1"
    unfolding bounded_text_def by (metis (no_types, lifting))
  from th m mem
  have "bounded_text 32 (AbsEthernetDiscoveryResult.ip (discovery_result (?t, ?t)))
          (AbsEthernetDiscoveryResult_get_ip_address (discovery_result (?t, ?t)))"
    by blast
  with a ni have l2: "length ?t \<le> 32 - 1"
    unfolding bounded_text_def by blast
  from r n l1 i g m a l2 show ?thesis by blast
qed

subsection \<open>Context manager\<close>



subsection \<open>Device identifier\<close>

text \<open>
  C10. Whenever \<open>get_device_id\<close> returns, the value is an integer from 0 to 255,
  whatever the library wrote into the 8-bit out-parameter.
\<close>

theorem get_device_id_range:
  "fst (get_device_id dll s) = Inr v \<Longrightarrow> 0 \<le> v \<and> v \<le> 255"
proof -
  assume ok: "fst (get_device_id dll s) = Inr v"
  obtain res dev_id w where
    call: "AbsScpiClient_GetDeviceId dll (handle s) (world s) = (res, dev_id, w)"
    by (cases "AbsScpiClient_GetDeviceId dll (handle s) (world s)") auto
  from ok call have v: "v = uint dev_id"
    by (auto simp: get_device_id_def split: sum.splits)
  have "uint dev_id < 2 ^ 8"
    using uint_bounded [of dev_id] by simp
  with v show ?thesis by simp
qed

theorem get_device_id_range_witness:
  "fst (get_device_id ((stub_driver 0 [])\<lparr>AbsScpiClient_GetDeviceId := (\<lambda>h w. (0, 255, w))\<rparr>) opened) = Inr 255
   \<and> (0 :: int) \<le> 255 \<and> (255 :: int) \<le> 255"
proof -
  let ?d = "(stub_driver 0 [])\<lparr>AbsScpiClient_GetDeviceId := (\<lambda>h w. (0, 255, w))\<rparr>"
  have h: "fst (get_device_id ?d opened) = Inr 255"
    by (simp add: get_device_id_def opened_def check_err_def)
  from get_device_id_range [OF h] h show ?thesis by simp
qed

end
